theory Spec2Isabelle
  imports Complex_Main
begin

section \<open>Numbers and absent values\<close>

text \<open>
  The program is JavaScript. In the model of the classifiers and of the session a
  JavaScript number is a \<^typ>\<open>real\<close> and the arithmetic is exact; \<open>NaN\<close> and the
  infinities are left out. Where a property is about the exact value a computation
  yields, the lines concerned are modelled a second time with the rounding of IEEE
  doubles (the functions whose names end in \<open>D\<close>). A value that may be \<open>null\<close> or
  \<open>undefined\<close> is a \<^typ>\<open>real option\<close> with \<open>None\<close> for the absent value.
\<close>

text \<open>JavaScript truthiness of a number-or-absent value: \<open>!v\<close> holds for an absent
  value and for 0.\<close>

definition falsy :: "real option \<Rightarrow> bool" where
  "falsy v = (case v of None \<Rightarrow> True | Some r \<Rightarrow> r = 0)"

text \<open>\<open>a || b\<close> on number-or-absent values.\<close>

definition js_or :: "real option \<Rightarrow> real option \<Rightarrow> real option" where
  "js_or a b = (if falsy a then b else a)"

text \<open>
  \<open>Number(v.toFixed(d))\<close>: the decimal with \<open>d\<close> fractional digits nearest to \<open>v\<close>;
  of two equally near ones \<open>toFixed\<close> takes the larger in magnitude (it rounds the
  absolute value and puts the sign back).
\<close>

definition toFixedNum :: "nat \<Rightarrow> real \<Rightarrow> real" where
  "toFixedNum d v =
     (if v < 0 then - (real_of_int \<lfloor>(- v) * 10 ^ d + 1 / 2\<rfloor> / 10 ^ d)
      else real_of_int \<lfloor>v * 10 ^ d + 1 / 2\<rfloor> / 10 ^ d)"

section \<open>Size classifiers\<close>

text \<open>The size labels of both classifiers; \<open>X3L\<close> and \<open>X4L\<close> are the strings
  \<open>'3XL'\<close> and \<open>'4XL'\<close>.\<close>

datatype size_label = XXS | XS | S | M | L | XL | XXL | X3L | X4L

subsection \<open>Frontend: \<open>recommendTopSize\<close> (Measure.jsx, lines 44-94)\<close>

text \<open>The scores are the pair \<open>(lScore, xlScore)\<close>, updated by the three
  \<open>if\<close>/\<open>else if\<close> chains in the order of the source.\<close>

definition chestScoring :: "real \<Rightarrow> nat \<times> nat \<Rightarrow> nat \<times> nat" where
  "chestScoring chestCm sc =
     (case sc of (lScore, xlScore) \<Rightarrow>
        if chestCm \<ge> 100 then (lScore, xlScore + 3)
        else if chestCm \<ge> 95 then (lScore, xlScore + 2)
        else if chestCm \<ge> 90 then (lScore, xlScore + 1)
        else if chestCm \<ge> 85 then (lScore + 2, xlScore)
        else if chestCm \<ge> 80 then (lScore + 1, xlScore)
        else (lScore, xlScore))"

definition shoulderScoring :: "real \<Rightarrow> nat \<times> nat \<Rightarrow> nat \<times> nat" where
  "shoulderScoring shoulderCm sc =
     (case sc of (lScore, xlScore) \<Rightarrow>
        if shoulderCm \<ge> 48 then (lScore, xlScore + 2)
        else if shoulderCm \<ge> 45 then (lScore, xlScore + 1)
        else if shoulderCm \<ge> 42 then (lScore + 2, xlScore)
        else if shoulderCm \<ge> 38 then (lScore + 1, xlScore)
        else (lScore, xlScore))"

definition waistScoring :: "real \<Rightarrow> nat \<times> nat \<Rightarrow> nat \<times> nat" where
  "waistScoring waistCm sc =
     (case sc of (lScore, xlScore) \<Rightarrow>
        if waistCm \<ge> 85 then (lScore, xlScore + 2)
        else if waistCm \<ge> 80 then (lScore, xlScore + 1)
        else if waistCm \<ge> 75 then (lScore + 2, xlScore)
        else if waistCm \<ge> 70 then (lScore + 1, xlScore)
        else (lScore, xlScore))"

text \<open>The arguments are in the order of the source: chest, waist, shoulder. The
  \<open>console.log\<close> call has no effect on the result and is left out.\<close>

definition recommendTopSize ::
  "real option \<Rightarrow> real option \<Rightarrow> real option \<Rightarrow> size_label option" where
  "recommendTopSize chestCm waistCm shoulderCm =
     (case (chestCm, waistCm, shoulderCm) of
        (Some c, Some w, Some s) \<Rightarrow>
          if c = 0 \<or> w = 0 \<or> s = 0 \<or> c \<le> 0 \<or> w \<le> 0 \<or> s \<le> 0 then None
          else
            (case waistScoring w (shoulderScoring s (chestScoring c (0, 0))) of
               (lScore, xlScore) \<Rightarrow> Some (if xlScore > lScore then XL else L))
      | _ \<Rightarrow> None)"

subsection \<open>Backend: \<open>estimateSizeFromMeasurements\<close> (ml.js, lines 162-229)\<close>

text \<open>The \<open>measurements\<close> object of the request body; every field may be missing.\<close>

record measurements =
  req_chestCm :: "real option"
  req_upperWaistCm :: "real option"
  req_waistCm :: "real option"
  req_shoulderCm :: "real option"

definition sizeOrder :: "size_label list" where
  "sizeOrder = [XXS, XS, S, M, L, XL, XXL, X3L, X4L]"

text \<open>\<open>Array.prototype.indexOf\<close>: the first index of the element, \<open>-1\<close> when it
  does not occur.\<close>

fun indexOf :: "'a list \<Rightarrow> 'a \<Rightarrow> int" where
  "indexOf [] a = -1"
| "indexOf (b # bs) a =
     (if b = a then 0 else (let i = indexOf bs a in if i < 0 then -1 else i + 1))"

definition primarySizeOf :: "real \<Rightarrow> size_label" where
  "primarySizeOf chestCm =
     (if chestCm < 80 then XXS
      else if chestCm < 85 then XS
      else if chestCm < 90 then S
      else if chestCm < 95 then M
      else if chestCm < 100 then L
      else if chestCm < 105 then XL
      else if chestCm < 110 then XXL
      else if chestCm < 115 then X3L
      else X4L)"

definition waistAdjustment :: "real \<Rightarrow> int" where
  "waistAdjustment waistChestRatio =
     (if waistChestRatio < 0.80 then -1 else if waistChestRatio > 0.90 then 1 else 0)"

definition shoulderAdjustment :: "real \<Rightarrow> int \<Rightarrow> int" where
  "shoulderAdjustment shoulderChestRatio sizeAdjustment =
     (if shoulderChestRatio > 0.60 then sizeAdjustment + 1
      else if shoulderChestRatio < 0.50 then sizeAdjustment - 1
      else sizeAdjustment)"

text \<open>The function returns a string on every path, never \<open>null\<close>; the result is
  an option so that it can be compared with the frontend classifier. The \<open>gender\<close>
  parameter is not read by the source.\<close>

definition estimateSizeFromMeasurements :: "measurements \<Rightarrow> size_label option" where
  "estimateSizeFromMeasurements ms =
     (case (req_chestCm ms, js_or (req_upperWaistCm ms) (req_waistCm ms), req_shoulderCm ms) of
        (Some c, Some w, Some s) \<Rightarrow>
          if c = 0 \<or> w = 0 \<or> s = 0 \<or> c \<le> 0 \<or> w \<le> 0 \<or> s \<le> 0 then Some M
          else
            (let primarySize = primarySizeOf c;
                 sizeAdjustment = shoulderAdjustment (s / c) (waistAdjustment (w / c));
                 currentIndex = indexOf sizeOrder primarySize;
                 adjustedIndex =
                   max 0 (min (int (length sizeOrder) - 1) (currentIndex + sizeAdjustment))
             in Some (sizeOrder ! nat adjustedIndex))
      | _ \<Rightarrow> Some M)"

section \<open>The measuring session (Measure.jsx)\<close>

subsection \<open>Constants\<close>

definition A4_WIDTH_CM :: real where "A4_WIDTH_CM = 21"
definition CHEST_MULTIPLIER :: real where "CHEST_MULTIPLIER = 1.75"
definition UPPER_WAIST_FACTOR :: real where "UPPER_WAIST_FACTOR = 0.90"
definition GUIDE_MARGIN :: real where "GUIDE_MARGIN = 0.08"
definition STABILITY_FRAMES :: nat where "STABILITY_FRAMES = 12"
definition MOVEMENT_EPS :: real where "MOVEMENT_EPS = 0.015"

subsection \<open>State\<close>

text \<open>The \<open>phase\<close> state variable. \<open>Error\<close> is set only when the initialisation of
  the pose estimator throws, which none of the operations below does.\<close>

datatype phase = Calibrate | Measure | Locked | Error

text \<open>
  The literals passed to \<open>setStatus\<close>, in the order of the source:
  \<^item> \<open>StHoldA4\<close>: "Hold an A4 sheet at chest level and match the bar width."
  \<^item> \<open>StDetecting\<close>: "Detecting body..." (with an ellipsis character)
  \<^item> \<open>StShowShoulders\<close>: "Show shoulders & upper torso."
  \<^item> \<open>StStepBack\<close>: "Step back/center inside the frame."
  \<^item> \<open>StAdjustBar\<close>: "Adjust bar -> Set calibration." (with an arrow character)
  \<^item> \<open>StClickSet\<close>: "Click Set calibration first."
  \<^item> \<open>StHoldStill\<close>: "Hold still..." (with an ellipsis character)
  \<^item> \<open>StLockedMsg\<close>: "Locked" followed by a check mark
  \<^item> \<open>StCalibrationSet\<close>: "Calibration set. Stand centered; shoulders & upper torso visible."
  \<^item> \<open>StStandCentered\<close>: "Stand centered; hold still 1-2 seconds."
\<close>

datatype status_msg =
  StHoldA4 | StDetecting | StShowShoulders | StStepBack | StAdjustBar | StClickSet
  | StHoldStill | StLockedMsg | StCalibrationSet | StStandCentered

text \<open>A landmark of the pose estimator. The fields are \<open>x\<close>, \<open>y\<close> and \<open>visibility\<close>
  in the source; \<open>visibility\<close> is read with \<open>?? 0\<close>, so it may be missing.\<close>

record landmark =
  lm_x :: real
  lm_y :: real
  lm_visibility :: "real option"

text \<open>The result \<open>res\<close> handed to \<open>pose.onResults\<close>: the size of \<open>res.image\<close> and
  \<open>res.poseLandmarks\<close>, an array that may be missing. Reading the array at an index
  it does not have gives \<open>undefined\<close>, here \<open>None\<close>.\<close>

record frame =
  imageWidth :: nat
  imageHeight :: nat
  poseLandmarks :: "(nat \<Rightarrow> landmark option) option"

record quality_rec =
  frames :: nat
  spreadCm :: real

text \<open>The object stored by \<open>setMeas\<close>; \<open>upperWaistCm\<close> may be \<open>undefined\<close>.\<close>

record locked_measurement =
  chestCm :: real
  shoulderCm :: real
  upperWaistCm :: "real option"
  quality :: quality_rec

text \<open>The state variables and refs of the component. The four buffers are the
  arrays \<open>recentShoulderN.current\<close>, \<open>chestBuf.current\<close>, \<open>shoulderBuf.current\<close> and
  \<open>waistBuf.current\<close>, oldest sample first. The camera and the canvas are not
  modelled, and an update of a state variable is in force when the next event (a
  frame or a button) is handled.\<close>

record session =
  phase :: phase
  status :: status_msg
  barPx :: real
  cmPerPx :: "real option"
  locked :: bool
  meas :: "locked_measurement option"
  recentShoulderN :: "real list"
  chestBuf :: "real list"
  shoulderBuf :: "real list"
  waistBuf :: "real list"

definition initial :: session where
  "initial = \<lparr> phase = Calibrate, status = StHoldA4, barPx = 300, cmPerPx = None,
     locked = False, meas = None, recentShoulderN = [], chestBuf = [], shoulderBuf = [],
     waistBuf = [] \<rparr>"

subsection \<open>Operator controls (lines 411-432, 497-503)\<close>

definition setBarPx :: "real \<Rightarrow> session \<Rightarrow> session" where
  "setBarPx b s = s\<lparr>barPx := b\<rparr>"

definition setCalibration :: "session \<Rightarrow> session" where
  "setCalibration s =
     (if barPx s < 40 then s
      else s\<lparr> cmPerPx := Some (A4_WIDTH_CM / barPx s), phase := Measure,
              status := StCalibrationSet,
              chestBuf := [], shoulderBuf := [], waistBuf := [], recentShoulderN := [] \<rparr>)"

definition retake :: "session \<Rightarrow> session" where
  "retake s =
     s\<lparr> locked := False, meas := None, phase := Measure, status := StStandCentered,
        chestBuf := [], shoulderBuf := [], waistBuf := [], recentShoulderN := [] \<rparr>"

definition recalibrate :: "session \<Rightarrow> session" where
  "recalibrate s =
     s\<lparr> locked := False, meas := None, phase := Calibrate, status := StHoldA4,
        chestBuf := [], shoulderBuf := [], waistBuf := [], recentShoulderN := [] \<rparr>"

subsection \<open>Per-frame processing: \<open>pose.onResults\<close> (lines 241-400)\<close>

text \<open>\<open>getDistance\<close> is \<open>Math.hypot\<close> of the coordinate differences.\<close>

definition getDistance :: "landmark \<Rightarrow> landmark \<Rightarrow> real" where
  "getDistance a b = sqrt ((lm_x a - lm_x b)\<^sup>2 + (lm_y a - lm_y b)\<^sup>2)"

definition vis :: "(nat \<Rightarrow> landmark option) \<Rightarrow> nat \<Rightarrow> bool" where
  "vis lm i =
     ((case lm i of None \<Rightarrow> 0
       | Some p \<Rightarrow> (case lm_visibility p of None \<Rightarrow> 0 | Some v \<Rightarrow> v)) > 0.45)"

definition shouldersOK :: "(nat \<Rightarrow> landmark option) \<Rightarrow> bool" where
  "shouldersOK lm = (vis lm 11 \<and> vis lm 12)"

definition hipsOK :: "(nat \<Rightarrow> landmark option) \<Rightarrow> bool" where
  "hipsOK lm = (vis lm 23 \<or> vis lm 24)"

text \<open>The test of line 338 for one point: inside the guide box.\<close>

definition insideGuide :: "nat \<Rightarrow> nat \<Rightarrow> landmark \<Rightarrow> bool" where
  "insideGuide W H p =
     (let gx = real W * GUIDE_MARGIN; gy = real H * GUIDE_MARGIN;
          gW = real W * (1 - GUIDE_MARGIN * 2); gH = real H * (1 - GUIDE_MARGIN * 2)
      in lm_x p * real W \<ge> gx \<and> lm_x p * real W \<le> gx + gW
         \<and> lm_y p * real H \<ge> gy \<and> lm_y p * real H \<le> gy + gH)"

text \<open>\<open>buf.push(v); if (buf.length > n) buf.shift()\<close>.\<close>

definition pushShift :: "real list \<Rightarrow> real \<Rightarrow> nat \<Rightarrow> real list" where
  "pushShift buf v n = (let b = buf @ [v] in if length b > n then tl b else b)"

text \<open>Lines 371-373 on the sorted copy \<open>s\<close>. On an empty array the source reads
  \<open>s[-1]\<close> and \<open>s[0]\<close>, both \<open>undefined\<close>, and returns \<open>NaN\<close>, which is falsy like
  \<open>null\<close>: the model returns \<open>None\<close> there.\<close>

definition medianSorted :: "real list \<Rightarrow> real option" where
  "medianSorted s =
     (let m = length s div 2
      in if s = [] then None
         else if length s mod 2 \<noteq> 0 then Some (s ! m)
         else Some ((s ! (m - 1) + s ! m) / 2))"

text \<open>\<open>pushMed(ref, val, n)\<close>: the new contents of \<open>ref.current\<close> and the value
  returned.\<close>

definition pushMed :: "real list \<Rightarrow> real option \<Rightarrow> nat \<Rightarrow> real list \<times> real option" where
  "pushMed buf val n =
     (case val of
        None \<Rightarrow> (buf, None)
      | Some v \<Rightarrow> (let b = pushShift buf v n in (b, medianSorted (sort b))))"

text \<open>\<open>Math.max(...xs)\<close> and \<open>Math.min(...xs)\<close>; the source calls them on non-empty
  arrays only (the window just pushed to, the chest window of length at least 8).\<close>

definition maxOf :: "real list \<Rightarrow> real" where
  "maxOf xs = Max (set xs)"

definition minOf :: "real list \<Rightarrow> real" where
  "minOf xs = Min (set xs)"

text \<open>Lines 351-352: the mean of the stability window and the largest absolute
  deviation from it.\<close>

definition windowAvg :: "real list \<Rightarrow> real" where
  "windowAvg bufN = sum_list bufN / real (length bufN)"

definition windowMaxDev :: "real list \<Rightarrow> real" where
  "windowMaxDev bufN = maxOf (map (\<lambda>v. \<bar>v - windowAvg bufN\<bar>) bufN)"

text \<open>Line 380.\<close>

definition spreadOf :: "real list \<Rightarrow> real" where
  "spreadOf cb = (if length cb \<ge> 8 then maxOf cb - minOf cb else 999)"

text \<open>Line 381.\<close>

definition stableNow :: "real list \<Rightarrow> real list \<Rightarrow> bool" where
  "stableNow bufN cb =
     (length bufN \<ge> STABILITY_FRAMES \<and> windowMaxDev bufN < MOVEMENT_EPS \<and> spreadOf cb < 1.8)"

text \<open>Lines 384-389: the object \<open>out\<close>, built when both medians are truthy.\<close>

definition lockedRecord ::
  "real \<Rightarrow> real \<Rightarrow> real option \<Rightarrow> real list \<Rightarrow> locked_measurement" where
  "lockedRecord chestMed shoulderMed waistMed cb =
     \<lparr> chestCm = toFixedNum 1 chestMed,
       shoulderCm = toFixedNum 1 shoulderMed,
       upperWaistCm = (if falsy waistMed then None else Some (toFixedNum 1 (the waistMed))),
       quality = \<lparr> frames = length cb, spreadCm = toFixedNum 2 (spreadOf cb) \<rparr> \<rparr>"

text \<open>Line 306: the hip used for the torso, the left one when it is visible.\<close>

definition hipOf :: "(nat \<Rightarrow> landmark option) \<Rightarrow> landmark" where
  "hipOf lm = (if vis lm 23 then the (lm 23) else the (lm 24))"

text \<open>Line 309: the midpoint of the shoulders, an object with \<open>x\<close> and \<open>y\<close> only.\<close>

definition shMidOf :: "landmark \<Rightarrow> landmark \<Rightarrow> landmark" where
  "shMidOf Lsh Rsh =
     \<lparr> lm_x = (lm_x Lsh + lm_x Rsh) / 2, lm_y = (lm_y Lsh + lm_y Rsh) / 2,
       lm_visibility = None \<rparr>"

text \<open>Lines 355-364: the instantaneous measurements of one frame, in exact
  arithmetic (\<open>shoulderCmD\<close> below is line 355-356 with the rounding of doubles).\<close>

definition shoulderCmOf :: "nat \<Rightarrow> landmark \<Rightarrow> landmark \<Rightarrow> real \<Rightarrow> real" where
  "shoulderCmOf W Lsh Rsh cm =
     (let shoulderPx = \<bar>(lm_x Lsh - lm_x Rsh) * real W\<bar> in shoulderPx * cm)"

definition upperWaistCmInstantOf ::
  "nat \<Rightarrow> (nat \<Rightarrow> landmark option) \<Rightarrow> real \<Rightarrow> real option" where
  "upperWaistCmInstantOf W lm cm =
     (if vis lm 23 \<and> vis lm 24
      then (let hipFlatCm = \<bar>(lm_x (the (lm 23)) - lm_x (the (lm 24))) * real W\<bar> * cm
            in Some (hipFlatCm * UPPER_WAIST_FACTOR))
      else None)"

text \<open>Lines 344-397: what a frame does once it has passed the guards of lines
  292-342, given the calibration factor.\<close>

definition measureFrame ::
  "session \<Rightarrow> nat \<Rightarrow> (nat \<Rightarrow> landmark option) \<Rightarrow> real \<Rightarrow> session" where
  "measureFrame s W lm cm =
     (let Lsh = the (lm 11); Rsh = the (lm 12);
          shoulderWidthN = getDistance Lsh Rsh;
          torsoHeightN = getDistance (shMidOf Lsh Rsh) (hipOf lm)
      in if torsoHeightN \<le> 0 then s\<lparr>status := StHoldStill\<rparr>
         else
           (let bufN = pushShift (recentShoulderN s) shoulderWidthN STABILITY_FRAMES;
                shoulderCmInstant = shoulderCmOf W Lsh Rsh cm;
                chestCmInstant = shoulderCmInstant * CHEST_MULTIPLIER;
                upperWaistCmInstant = upperWaistCmInstantOf W lm cm;
                (cb, chestMed) = pushMed (chestBuf s) (Some chestCmInstant) 15;
                (sb, shoulderMed) = pushMed (shoulderBuf s) (Some shoulderCmInstant) 15;
                (wb, waistMed) = pushMed (waistBuf s) upperWaistCmInstant 15;
                s1 = s\<lparr> recentShoulderN := bufN, chestBuf := cb, shoulderBuf := sb,
                        waistBuf := wb \<rparr>
            in if stableNow bufN cb \<and> \<not> falsy chestMed \<and> \<not> falsy shoulderMed
               then s1\<lparr> meas := Some (lockedRecord (the chestMed) (the shoulderMed) waistMed cb),
                        locked := True, phase := Locked, status := StLockedMsg \<rparr>
               else s1\<lparr> status := StHoldStill \<rparr>))"

text \<open>The handler. Drawing on the canvas changes no state variable and is left
  out; every early \<open>return\<close> of the source is a branch here, in the order of the
  source.\<close>

definition processFrame :: "session \<Rightarrow> frame \<Rightarrow> session" where
  "processFrame s res =
     (if locked s then s
      else
        (case poseLandmarks res of
           None \<Rightarrow> s\<lparr>status := StDetecting\<rparr>
         | Some lm \<Rightarrow>
             if \<not> (shouldersOK lm \<and> hipsOK lm) then s\<lparr>status := StShowShoulders\<rparr>
             else
               (let W = imageWidth res; H = imageHeight res;
                    Lsh = the (lm 11); Rsh = the (lm 12); hip = hipOf lm
                in if \<not> (insideGuide W H Lsh \<and> insideGuide W H Rsh \<and> insideGuide W H hip)
                   then s\<lparr>status := StStepBack\<rparr>
                   else if phase s = Calibrate then s\<lparr>status := StAdjustBar\<rparr>
                   else if falsy (cmPerPx s) then s\<lparr>status := StClickSet\<rparr>
                   else measureFrame s W lm (the (cmPerPx s)))))"

text \<open>A run of frames, processed one after the other.\<close>

definition processFrames :: "session \<Rightarrow> frame list \<Rightarrow> session" where
  "processFrames s fs = foldl processFrame s fs"

text \<open>
  The states the page can reach. The controls are rendered by phase: the slider
  (range 120 to 900) and the Set Calibration button only while
  \<open>phase === "calibrate"\<close> (lines 489-515), the Retake and Recalibrate buttons only
  while \<open>phase === "locked" && meas\<close> (lines 551-600); a frame can arrive at any time.
\<close>

inductive reachable :: "session \<Rightarrow> bool" where
  r_init: "reachable initial"
| r_slider: "reachable s \<Longrightarrow> phase s = Calibrate \<Longrightarrow> 120 \<le> b \<Longrightarrow> b \<le> 900
             \<Longrightarrow> reachable (setBarPx b s)"
| r_calibrate: "reachable s \<Longrightarrow> phase s = Calibrate \<Longrightarrow> reachable (setCalibration s)"
| r_retake: "reachable s \<Longrightarrow> phase s = Locked \<Longrightarrow> meas s \<noteq> None \<Longrightarrow> reachable (retake s)"
| r_recalibrate: "reachable s \<Longrightarrow> phase s = Locked \<Longrightarrow> meas s \<noteq> None
             \<Longrightarrow> reachable (recalibrate s)"
| r_frame: "reachable s \<Longrightarrow> reachable (processFrame s res)"

subsection \<open>Lines 413 and 355-356 in double precision\<close>

text \<open>Rounding a real to the nearest integer, a tie going to the even one.\<close>

definition roundTiesToEven :: "real \<Rightarrow> int" where
  "roundTiesToEven r =
     (let f = \<lfloor>r\<rfloor>
      in if r - of_int f < 1 / 2 then f
         else if r - of_int f > 1 / 2 then f + 1
         else if even f then f else f + 1)"

text \<open>
  The IEEE 754 double nearest to a real (round to nearest, ties to even): with
  \<open>2\<^sup>e \<le> |v| < 2\<^sup>e\<^sup>+\<^sup>1\<close> the doubles around \<open>v\<close> are the multiples of \<open>2\<^sup>e\<^sup>-\<^sup>5\<^sup>2\<close>
  (53 significant bits). The exponent range is not bounded here, so this is the
  rounding of every operation whose result is neither subnormal nor too large, as
  are all values below.
\<close>

definition dbl :: "real \<Rightarrow> real" where
  "dbl v =
     (if v = 0 then 0
      else (let e = \<lfloor>log 2 \<bar>v\<bar>\<rfloor>; ulp = 2 powr (of_int e - 52)
            in sgn v * of_int (roundTiesToEven (\<bar>v\<bar> / ulp)) * ulp))"

text \<open>Line 413: \<open>A4_WIDTH_CM / barPx\<close>, one division.\<close>

definition calibrationFactorD :: "real \<Rightarrow> real" where
  "calibrationFactorD b = dbl (A4_WIDTH_CM / b)"

text \<open>Line 355: \<open>Math.abs((Lsh.x - Rsh.x) * W)\<close>, a subtraction and a multiplication;
  \<open>Math.abs\<close> is exact.\<close>

definition shoulderPxD :: "nat \<Rightarrow> landmark \<Rightarrow> landmark \<Rightarrow> real" where
  "shoulderPxD W Lsh Rsh = \<bar>dbl (dbl (lm_x Lsh - lm_x Rsh) * real W)\<bar>"

text \<open>Line 356: \<open>shoulderPx * cmPerPx\<close>, one multiplication.\<close>

definition shoulderCmD :: "nat \<Rightarrow> landmark \<Rightarrow> landmark \<Rightarrow> real \<Rightarrow> real" where
  "shoulderCmD W Lsh Rsh cm = dbl (shoulderPxD W Lsh Rsh * cm)"

subsection \<open>Predicates on frames and windows used in the statements\<close>

text \<open>A frame is accepted by a session when the handler reaches line 349 with it:
  the session is not locked and every guard of lines 292-347 lets it through.\<close>

definition accepted :: "session \<Rightarrow> frame \<Rightarrow> bool" where
  "accepted s res =
     (\<not> locked s \<and>
      (case poseLandmarks res of
         None \<Rightarrow> False
       | Some lm \<Rightarrow>
           shouldersOK lm \<and> hipsOK lm
           \<and> insideGuide (imageWidth res) (imageHeight res) (the (lm 11))
           \<and> insideGuide (imageWidth res) (imageHeight res) (the (lm 12))
           \<and> insideGuide (imageWidth res) (imageHeight res) (hipOf lm)
           \<and> phase s \<noteq> Calibrate \<and> \<not> falsy (cmPerPx s)
           \<and> getDistance (shMidOf (the (lm 11)) (the (lm 12))) (hipOf lm) > 0))"

text \<open>A frame without its required joints: no landmark array at all, a shoulder
  that is absent or not above the visibility threshold, or both hips so.\<close>

definition lacksRequiredJoint :: "frame \<Rightarrow> bool" where
  "lacksRequiredJoint res =
     (case poseLandmarks res of
        None \<Rightarrow> True
      | Some lm \<Rightarrow> \<not> vis lm 11 \<or> \<not> vis lm 12 \<or> (\<not> vis lm 23 \<and> \<not> vis lm 24))"

text \<open>Both hip landmarks of the frame are visible at once.\<close>

definition bothHipsVisible :: "frame \<Rightarrow> bool" where
  "bothHipsVisible res =
     (case poseLandmarks res of None \<Rightarrow> False | Some lm \<Rightarrow> vis lm 23 \<and> vis lm 24)"

text \<open>A run of frames from a state in which no accepted frame shows both hips.\<close>

fun noWaistRun :: "session \<Rightarrow> frame list \<Rightarrow> bool" where
  "noWaistRun s [] = True"
| "noWaistRun s (res # fs) =
     ((accepted s res \<longrightarrow> \<not> bothHipsVisible res) \<and> noWaistRun (processFrame s res) fs)"

text \<open>An input of a classifier that is missing or not positive.\<close>

definition missingOrNonPositive :: "real option \<Rightarrow> bool" where
  "missingOrNonPositive v = (case v of None \<Rightarrow> True | Some r \<Rightarrow> r \<le> 0)"

text \<open>The median in the words of the specification: the middle element of the
  sorted window when its length is odd, the average of the two middle elements when
  it is even.\<close>

definition median_spec :: "real list \<Rightarrow> real" where
  "median_spec w =
     (let s = sort w; k = length w
      in if odd k then s ! (k div 2) else (s ! (k div 2 - 1) + s ! (k div 2)) / 2)"



subsection \<open>Example frames\<close>

definition mkLandmark :: "real \<Rightarrow> real \<Rightarrow> real \<Rightarrow> landmark" where
  "mkLandmark px py v = \<lparr> lm_x = px, lm_y = py, lm_visibility = Some v \<rparr>"

text \<open>The 33 landmarks of a pose, all at the centre of the image and with a
  visibility of 0.1; the example frames override the joints they show.\<close>

definition restPose :: "nat \<Rightarrow> landmark option" where
  "restPose i = (if i < 33 then Some (mkLandmark (1 / 2) (1 / 2) (1 / 10)) else None)"

text \<open>A 1280 by 720 frame with level shoulders 400 pixels apart and only the left
  hip in view.\<close>

definition frameOneHip :: frame where
  "frameOneHip =
     \<lparr> imageWidth = 1280, imageHeight = 720,
       poseLandmarks = Some (restPose
         (11 := Some (mkLandmark (21 / 32) (3 / 10) (9 / 10)),
          12 := Some (mkLandmark (11 / 32) (3 / 10) (9 / 10)),
          23 := Some (mkLandmark (1 / 2) (7 / 10) (9 / 10)))) \<rparr>"


text \<open>A frame in which the estimator found no body.\<close>

definition frameNoPose :: frame where
  "frameNoPose = \<lparr> imageWidth = 1280, imageHeight = 720, poseLandmarks = None \<rparr>"

text \<open>The session after the default calibration (bar of 300 pixels).\<close>

definition calibrated :: session where
  "calibrated = setCalibration initial"

section \<open>Properties of the size classifiers\<close>

lemmas scoring_defs = chestScoring_def shoulderScoring_def waistScoring_def

lemma recommendTopSize_absent:
  "missingOrNonPositive c \<or> missingOrNonPositive w \<or> missingOrNonPositive s
   \<Longrightarrow> recommendTopSize c w s = None"
  by (auto simp: recommendTopSize_def missingOrNonPositive_def split: option.splits)

lemma estimate_fallback:
  "missingOrNonPositive (req_chestCm ms)
   \<or> missingOrNonPositive (js_or (req_upperWaistCm ms) (req_waistCm ms))
   \<or> missingOrNonPositive (req_shoulderCm ms)
   \<Longrightarrow> estimateSizeFromMeasurements ms = Some M"
  by (auto simp: estimateSizeFromMeasurements_def missingOrNonPositive_def split: option.splits)

text \<open>
  C2, as the code has it: when the chest, the waist or the shoulder is missing or
  not positive, the frontend classifier \<open>recommendTopSize\<close> returns no label, and
  the backend classifier \<open>estimateSizeFromMeasurements\<close> returns its default label
  \<open>'M'\<close> (for the backend the waist is \<open>upperWaistCm || waistCm\<close>).
\<close>

theorem classifiers_on_bad_input:
  "(missingOrNonPositive c \<or> missingOrNonPositive w \<or> missingOrNonPositive s
      \<longrightarrow> recommendTopSize c w s = None)
   \<and> (missingOrNonPositive (req_chestCm ms)
        \<or> missingOrNonPositive (js_or (req_upperWaistCm ms) (req_waistCm ms))
        \<or> missingOrNonPositive (req_shoulderCm ms)
      \<longrightarrow> estimateSizeFromMeasurements ms = Some M)"
  using recommendTopSize_absent estimate_fallback by blast

theorem classifiers_on_bad_input_witness:
  "missingOrNonPositive (Some 0) \<and> recommendTopSize (Some 0) (Some 80) (Some 45) = None
   \<and> missingOrNonPositive (req_chestCm \<lparr> req_chestCm = None, req_upperWaistCm = Some 80,
        req_waistCm = None, req_shoulderCm = Some 45 \<rparr>)
   \<and> estimateSizeFromMeasurements \<lparr> req_chestCm = None, req_upperWaistCm = Some 80,
        req_waistCm = None, req_shoulderCm = Some 45 \<rparr> = Some M"
  using classifiers_on_bad_input [of "Some 0" "Some 80" "Some 45"
      "\<lparr> req_chestCm = None, req_upperWaistCm = Some 80,
        req_waistCm = None, req_shoulderCm = Some 45 \<rparr>"]
  by (simp add: missingOrNonPositive_def)

text \<open>C2 as stated fails for the backend: with a chest of 0 it returns a label.\<close>

theorem backend_returns_label_counterexample:
  "missingOrNonPositive (req_chestCm \<lparr> req_chestCm = Some 0, req_upperWaistCm = Some 80,
        req_waistCm = None, req_shoulderCm = Some 45 \<rparr>)
   \<and> estimateSizeFromMeasurements \<lparr> req_chestCm = Some 0, req_upperWaistCm = Some 80,
        req_waistCm = None, req_shoulderCm = Some 45 \<rparr> \<noteq> None"
  by (simp add: estimateSizeFromMeasurements_def missingOrNonPositive_def js_or_def falsy_def)

text \<open>
  C4: the two-size classifier is a function of its three arguments alone (the source
  reads and writes nothing else, so equal inputs give equal labels); it returns no
  label when the chest is 0 or negative, \<open>XL\<close> for chest 105, waist 90, shoulder 50,
  and \<open>L\<close> for chest 85, waist 72, shoulder 40.
\<close>

theorem two_size_classifier_examples:
  "(\<forall>c w s. c \<le> 0 \<longrightarrow> recommendTopSize (Some c) w s = None)
   \<and> recommendTopSize (Some 105) (Some 90) (Some 50) = Some XL
   \<and> recommendTopSize (Some 85) (Some 72) (Some 40) = Some L"
  by (auto simp: recommendTopSize_def scoring_defs split: option.splits)

theorem two_size_classifier_examples_witness:
  "(0::real) \<le> 0 \<and> recommendTopSize (Some 0) (Some 90) (Some 50) = None"
  using two_size_classifier_examples by simp

section \<open>Properties of the operator controls\<close>

text \<open>
  C7: right after \<open>retake\<close> or \<open>recalibrate\<close>, whatever the state before, the
  stability window and the chest, shoulder and waist windows are all empty.
\<close>

theorem reset_clears_windows:
  "recentShoulderN (retake s) = [] \<and> chestBuf (retake s) = [] \<and> shoulderBuf (retake s) = []
   \<and> waistBuf (retake s) = []
   \<and> recentShoulderN (recalibrate s) = [] \<and> chestBuf (recalibrate s) = []
   \<and> shoulderBuf (recalibrate s) = [] \<and> waistBuf (recalibrate s) = []"
  by (simp add: retake_def recalibrate_def)

text \<open>
  C8, as the code has it: \<open>setCalibration\<close> with a bar narrower than 40 pixels
  changes nothing; with a bar of 40 pixels or more (40 included) it sets the factor
  to the reference width divided by the bar width, moves to the measuring phase and
  empties the four windows.
\<close>

theorem setCalibration_threshold:
  "(barPx s < 40 \<longrightarrow> setCalibration s = s)
   \<and> (40 \<le> barPx s \<longrightarrow>
        cmPerPx (setCalibration s) = Some (A4_WIDTH_CM / barPx s)
        \<and> phase (setCalibration s) = Measure
        \<and> recentShoulderN (setCalibration s) = [] \<and> chestBuf (setCalibration s) = []
        \<and> shoulderBuf (setCalibration s) = [] \<and> waistBuf (setCalibration s) = [])"
  by (simp add: setCalibration_def)

theorem setCalibration_threshold_witness:
  "barPx (setBarPx 30 initial) < 40 \<and> setCalibration (setBarPx 30 initial) = setBarPx 30 initial
   \<and> 40 \<le> barPx (setBarPx 300 initial)
   \<and> cmPerPx (setCalibration (setBarPx 300 initial)) = Some (7 / 100)
   \<and> phase (setCalibration (setBarPx 300 initial)) = Measure"
  using setCalibration_threshold [of "setBarPx 30 initial"]
    setCalibration_threshold [of "setBarPx 300 initial"]
  by (simp add: setBarPx_def initial_def A4_WIDTH_CM_def)

text \<open>C8 as stated fails at the boundary: a bar of exactly 40 pixels does not exceed
  40, and yet the calibration is accepted.\<close>

theorem setCalibration_at_40_counterexample:
  "\<not> barPx (setBarPx 40 initial) > 40
   \<and> cmPerPx (setBarPx 40 initial) = None
   \<and> cmPerPx (setCalibration (setBarPx 40 initial)) = Some (21 / 40)
   \<and> phase (setBarPx 40 initial) = Calibrate
   \<and> phase (setCalibration (setBarPx 40 initial)) = Measure"
  by (simp add: setCalibration_def setBarPx_def initial_def A4_WIDTH_CM_def)

section \<open>Windows and medians\<close>

lemmas measure_consts =
  A4_WIDTH_CM_def CHEST_MULTIPLIER_def UPPER_WAIST_FACTOR_def GUIDE_MARGIN_def
  STABILITY_FRAMES_def MOVEMENT_EPS_def

subsection \<open>Distances along an axis\<close>

lemma getDistance_level: "lm_y a = lm_y b \<Longrightarrow> getDistance a b = \<bar>lm_x a - lm_x b\<bar>"
  by (simp add: getDistance_def)

lemma getDistance_upright: "lm_x a = lm_x b \<Longrightarrow> getDistance a b = \<bar>lm_y a - lm_y b\<bar>"
  by (simp add: getDistance_def)

subsection \<open>Windows holding one value\<close>

lemma pushShift_replicate:
  "k < n \<Longrightarrow> pushShift (replicate k a) a n = replicate (Suc k) a"
  by (simp add: pushShift_def replicate_append_same)

lemma sort_same: "sort (replicate k (a::real)) = replicate k a"
  by (simp add: sort_key_id_if_sorted)

lemma medianSorted_replicate: "medianSorted (replicate (Suc k) a) = Some a"
proof -
  have "Suc k div 2 < Suc k" by simp
  moreover have "Suc k div 2 - 1 < Suc k" by arith
  ultimately show ?thesis by (simp add: medianSorted_def Let_def del: replicate_Suc)
qed

lemma pushMed_absent: "pushMed buf None n = (buf, None)"
  by (simp add: pushMed_def)

lemma maxOf_replicate: "maxOf (replicate (Suc k) a) = a"
  by (simp add: maxOf_def del: replicate_Suc)

lemma minOf_replicate: "minOf (replicate (Suc k) a) = a"
  by (simp add: minOf_def del: replicate_Suc)

lemma windowAvg_replicate: "windowAvg (replicate (Suc k) a) = a"
  by (simp add: windowAvg_def sum_list_replicate del: replicate_Suc)

lemma windowMaxDev_replicate: "windowMaxDev (replicate (Suc k) a) = 0"
proof -
  have "map (\<lambda>v. \<bar>v - a\<bar>) (replicate (Suc k) a) = replicate (Suc k) 0"
    by (simp add: map_replicate_const)
  then show ?thesis
    unfolding windowMaxDev_def windowAvg_replicate by (simp add: maxOf_def del: replicate_Suc)
qed

lemma spreadOf_replicate: "spreadOf (replicate (Suc k) a) = (if 8 \<le> Suc k then 0 else 999)"
  unfolding spreadOf_def by (simp add: maxOf_replicate minOf_replicate del: replicate_Suc)

lemma stableNow_replicate:
  "stableNow (replicate (Suc k) a) (replicate (Suc k) c) = (12 \<le> Suc k)"
  unfolding stableNow_def windowMaxDev_replicate spreadOf_replicate
  by (auto simp: measure_consts)


subsection \<open>The example frames\<close>

lemma toFixedNum_examples:
  "toFixedNum (Suc 0) 49 = 49" "toFixedNum (Suc 0) 28 = 28" "toFixedNum 2 0 = 0"
  by (simp_all add: toFixedNum_def)

lemma mkLandmark_sel:
  "lm_x (mkLandmark a b c) = a" "lm_y (mkLandmark a b c) = b"
  "lm_visibility (mkLandmark a b c) = Some c"
  by (simp_all add: mkLandmark_def)

lemma oneHip_accepted:
  "\<not> locked s \<Longrightarrow> phase s \<noteq> Calibrate \<Longrightarrow> \<not> falsy (cmPerPx s) \<Longrightarrow> accepted s frameOneHip"
  by (simp add: accepted_def frameOneHip_def restPose_def shouldersOK_def hipsOK_def vis_def mkLandmark_sel
      insideGuide_def GUIDE_MARGIN_def hipOf_def shMidOf_def getDistance_upright)

lemma processFrames_snoc: "processFrames s (fs @ [f]) = processFrame (processFrames s fs) f"
  by (simp add: processFrames_def)

lemma processFrames_replicate_Suc:
  "processFrames s (replicate (Suc k) f) = processFrame (processFrames s (replicate k f)) f"
proof -
  have "replicate (Suc k) f = replicate k f @ [f]"
    by (simp add: replicate_append_same)
  then show ?thesis by (simp only: processFrames_snoc)
qed

lemma calibrated_eq:
  "calibrated = \<lparr> phase = Measure, status = StCalibrationSet, barPx = 300,
     cmPerPx = Some (7 / 100), locked = False, meas = None, recentShoulderN = [],
     chestBuf = [], shoulderBuf = [], waistBuf = [] \<rparr>"
  by (simp add: calibrated_def setCalibration_def initial_def A4_WIDTH_CM_def)

subsection \<open>What the handler does to a frame\<close>



lemma pushShift_nonempty: "0 < n \<Longrightarrow> pushShift buf v n \<noteq> []"
  by (cases buf) (simp_all add: pushShift_def Let_def)

lemma sort_empty_iff: "sort w = [] \<longleftrightarrow> w = []"
  using length_sort [of "\<lambda>v. v" w] by (metis length_0_conv)

lemma medianSorted_sort: "w \<noteq> [] \<Longrightarrow> medianSorted (sort w) = Some (median_spec w)"
  by (auto simp: medianSorted_def median_spec_def Let_def odd_iff_mod_2_eq_one sort_empty_iff)

lemma pushMed_sample:
  "0 < n \<Longrightarrow> pushMed buf (Some v) n = (pushShift buf v n, Some (median_spec (pushShift buf v n)))"
  by (simp add: pushMed_def Let_def medianSorted_sort pushShift_nonempty)

lemma processFrame_locked: "locked s \<Longrightarrow> processFrame s res = s"
  by (simp add: processFrame_def)

lemma processFrame_rejected:
  assumes "\<not> accepted s res"
  shows "processFrame s res = s \<or> (\<exists>st. processFrame s res = s\<lparr>status := st\<rparr>)"
proof (cases "locked s")
  case True
  then show ?thesis by (simp add: processFrame_locked)
next
  case False
  show ?thesis
  proof (cases "poseLandmarks res")
    case None
    with False show ?thesis by (auto simp: processFrame_def)
  next
    case (Some lm)
    with False assms show ?thesis
      by (auto simp: processFrame_def accepted_def Let_def measureFrame_def)
  qed
qed

text \<open>The state after an accepted frame, with the windows written out.\<close>

lemma processFrame_accepted:
  assumes "accepted s res" and "poseLandmarks res = Some lm"
  defines "cm \<equiv> the (cmPerPx s)"
  defines "sc \<equiv> shoulderCmOf (imageWidth res) (the (lm 11)) (the (lm 12)) cm"
  defines "bufN \<equiv> pushShift (recentShoulderN s) (getDistance (the (lm 11)) (the (lm 12))) STABILITY_FRAMES"
  defines "cb \<equiv> pushShift (chestBuf s) (sc * CHEST_MULTIPLIER) 15"
  defines "sb \<equiv> pushShift (shoulderBuf s) sc 15"
  defines "wm \<equiv> pushMed (waistBuf s) (upperWaistCmInstantOf (imageWidth res) lm cm) 15"
  defines "s1 \<equiv> s\<lparr> recentShoulderN := bufN, chestBuf := cb, shoulderBuf := sb, waistBuf := fst wm \<rparr>"
  shows "processFrame s res =
     (if stableNow bufN cb \<and> median_spec cb \<noteq> 0 \<and> median_spec sb \<noteq> 0
      then s1\<lparr> meas := Some (lockedRecord (median_spec cb) (median_spec sb) (snd wm) cb),
               locked := True, phase := Locked, status := StLockedMsg \<rparr>
      else s1\<lparr> status := StHoldStill \<rparr>)"
  using assms(1,2)
  unfolding cm_def sc_def bufN_def cb_def sb_def wm_def s1_def
  by (simp add: processFrame_def accepted_def measureFrame_def Let_def pushMed_sample falsy_def
      split_beta)

subsection \<open>The median of a window\<close>








lemma median_spec_replicate: "median_spec (replicate (Suc k) a) = a"
  using medianSorted_sort [of "replicate (Suc k) a"]
  by (simp add: sort_same medianSorted_replicate del: replicate_Suc)

lemma accepted_landmarks: "accepted s res \<Longrightarrow> \<exists>lm. poseLandmarks res = Some lm"
  by (cases "poseLandmarks res") (simp_all add: accepted_def)

lemma steady_step:
  assumes "accepted s res" and "poseLandmarks res = Some lm" and "\<not> bothHipsVisible res"
    and "getDistance (the (lm 11)) (the (lm 12)) = d"
    and "shoulderCmOf (imageWidth res) (the (lm 11)) (the (lm 12)) (the (cmPerPx s)) = sc"
    and "recentShoulderN s = replicate k d" and "chestBuf s = replicate k (sc * CHEST_MULTIPLIER)"
    and "shoulderBuf s = replicate k sc" and "k < 12"
  shows "processFrame s res =
     (if 12 \<le> Suc k \<and> sc \<noteq> 0
      then s\<lparr> recentShoulderN := replicate (Suc k) d,
              chestBuf := replicate (Suc k) (sc * CHEST_MULTIPLIER),
              shoulderBuf := replicate (Suc k) sc,
              meas := Some (lockedRecord (sc * CHEST_MULTIPLIER) sc None
                              (replicate (Suc k) (sc * CHEST_MULTIPLIER))),
              locked := True, phase := Locked, status := StLockedMsg \<rparr>
      else s\<lparr> recentShoulderN := replicate (Suc k) d,
              chestBuf := replicate (Suc k) (sc * CHEST_MULTIPLIER),
              shoulderBuf := replicate (Suc k) sc, status := StHoldStill \<rparr>)"
proof -
  have k15: "k < 15" using assms(9) by simp
  have nohips: "upperWaistCmInstantOf (imageWidth res) lm (the (cmPerPx s)) = None"
    using assms(2,3) by (simp add: upperWaistCmInstantOf_def bothHipsVisible_def)
  show ?thesis
    unfolding processFrame_accepted [OF assms(1,2)] assms(4-8) nohips pushMed_absent
    using assms(9) k15
    by (simp add: pushShift_replicate STABILITY_FRAMES_def stableNow_replicate
        median_spec_replicate CHEST_MULTIPLIER_def del: replicate_Suc)
qed

section \<open>Example runs and reachable states\<close>

subsection \<open>The two example runs\<close>

lemma oneHip_measures:
  assumes "poseLandmarks frameOneHip = Some lm"
  shows "getDistance (the (lm 11)) (the (lm 12)) = 5 / 16"
    and "shoulderCmOf (imageWidth frameOneHip) (the (lm 11)) (the (lm 12)) (7 / 100) = 28"
  using assms
  by (auto simp: frameOneHip_def restPose_def getDistance_level shoulderCmOf_def mkLandmark_sel)

lemma oneHip_one_hip: "\<not> bothHipsVisible frameOneHip"
  by (simp add: bothHipsVisible_def frameOneHip_def restPose_def vis_def mkLandmark_sel)




text \<open>The calibrated session after \<open>k\<close> frames that all gave the same samples and
  did not lock.\<close>

lemma steady_run:
  assumes acc: "\<And>s. \<not> locked s \<Longrightarrow> phase s \<noteq> Calibrate \<Longrightarrow> \<not> falsy (cmPerPx s) \<Longrightarrow> accepted s res"
    and lm: "poseLandmarks res = Some lm" and hips: "\<not> bothHipsVisible res"
    and d: "getDistance (the (lm 11)) (the (lm 12)) = d"
    and sc: "shoulderCmOf (imageWidth res) (the (lm 11)) (the (lm 12)) (7 / 100) = sc"
    and k: "k \<le> 11 \<or> sc = 0 \<and> k \<le> 12"
  shows "processFrames calibrated (replicate k res) =
     calibrated\<lparr> recentShoulderN := replicate k d,
       chestBuf := replicate k (sc * CHEST_MULTIPLIER), shoulderBuf := replicate k sc,
       status := (if k = 0 then StCalibrationSet else StHoldStill) \<rparr>"
  using k
proof (induction k)
  case 0
  show ?case by (simp add: processFrames_def calibrated_eq)
next
  case (Suc k)
  define s where "s = calibrated\<lparr> recentShoulderN := replicate k d,
       chestBuf := replicate k (sc * CHEST_MULTIPLIER), shoulderBuf := replicate k sc,
       status := (if k = 0 then StCalibrationSet else StHoldStill) \<rparr>"
  have run: "processFrames calibrated (replicate k res) = s"
    unfolding s_def using Suc by auto
  have a: "accepted s res"
    by (rule acc) (simp_all add: s_def calibrated_eq falsy_def)
  have sc': "shoulderCmOf (imageWidth res) (the (lm 11)) (the (lm 12)) (the (cmPerPx s)) = sc"
    using sc by (simp add: s_def calibrated_eq)
  have nolock: "\<not> (12 \<le> Suc k \<and> sc \<noteq> 0)" and k12: "k < 12"
    using Suc.prems by auto
  have "processFrames calibrated (replicate (Suc k) res) = processFrame s res"
    by (simp only: processFrames_replicate_Suc run)
  also have "\<dots> = s\<lparr> recentShoulderN := replicate (Suc k) d,
              chestBuf := replicate (Suc k) (sc * CHEST_MULTIPLIER),
              shoulderBuf := replicate (Suc k) sc, status := StHoldStill \<rparr>"
    by (subst steady_step [OF a lm hips d sc' _ _ _ k12]) (simp_all only: nolock if_False, simp_all add: s_def)
  finally show ?case by (simp add: s_def)
qed

lemma oneHip_run:
  assumes "k \<le> 11"
  shows "processFrames calibrated (replicate k frameOneHip) =
     calibrated\<lparr> recentShoulderN := replicate k (5 / 16), chestBuf := replicate k 49,
       shoulderBuf := replicate k 28,
       status := (if k = 0 then StCalibrationSet else StHoldStill) \<rparr>"
proof -
  obtain lm where lm: "poseLandmarks frameOneHip = Some lm"
    by (simp add: frameOneHip_def restPose_def)
  have "processFrames calibrated (replicate k frameOneHip) =
     calibrated\<lparr> recentShoulderN := replicate k (5 / 16),
       chestBuf := replicate k (28 * CHEST_MULTIPLIER), shoulderBuf := replicate k 28,
       status := (if k = 0 then StCalibrationSet else StHoldStill) \<rparr>"
    using assms
    by (intro steady_run [OF oneHip_accepted lm oneHip_one_hip oneHip_measures(1) [OF lm]
          oneHip_measures(2) [OF lm]]) simp_all
  then show ?thesis by (simp add: CHEST_MULTIPLIER_def)
qed

lemma oneHip_eleven:
  "processFrames calibrated (replicate 11 frameOneHip) =
     calibrated\<lparr> recentShoulderN := replicate 11 (5 / 16), chestBuf := replicate 11 49,
       shoulderBuf := replicate 11 28, status := StHoldStill \<rparr>"
  using oneHip_run [of 11] by simp

lemma oneHip_twelfth:
  "processFrame (processFrames calibrated (replicate 11 frameOneHip)) frameOneHip =
     calibrated\<lparr> recentShoulderN := replicate 12 (5 / 16), chestBuf := replicate 12 49,
       shoulderBuf := replicate 12 28,
       meas := Some \<lparr> chestCm = 49, shoulderCm = 28, upperWaistCm = None,
                      quality = \<lparr> frames = 12, spreadCm = 0 \<rparr> \<rparr>,
       locked := True, phase := Locked, status := StLockedMsg \<rparr>"
proof -
  define s where "s = calibrated\<lparr> recentShoulderN := replicate 11 (5 / 16),
       chestBuf := replicate 11 49, shoulderBuf := replicate 11 28, status := StHoldStill \<rparr>"
  obtain lm where lm: "poseLandmarks frameOneHip = Some lm"
    by (simp add: frameOneHip_def restPose_def)
  have a: "accepted s frameOneHip"
    by (rule oneHip_accepted) (simp_all add: s_def calibrated_eq falsy_def)
  have sc: "shoulderCmOf (imageWidth frameOneHip) (the (lm 11)) (the (lm 12)) (the (cmPerPx s)) = 28"
    using oneHip_measures(2) [OF lm] by (simp add: s_def calibrated_eq)
  have rec: "lockedRecord 49 28 None (replicate (Suc 11) 49)
      = \<lparr> chestCm = 49, shoulderCm = 28, upperWaistCm = None,
          quality = \<lparr> frames = 12, spreadCm = 0 \<rparr> \<rparr>"
    unfolding lockedRecord_def spreadOf_replicate
    by (simp add: toFixedNum_examples falsy_def del: replicate_Suc)
  have "processFrame s frameOneHip =
      s\<lparr> recentShoulderN := replicate (Suc 11) (5 / 16),
         chestBuf := replicate (Suc 11) (28 * CHEST_MULTIPLIER),
         shoulderBuf := replicate (Suc 11) 28,
         meas := Some (lockedRecord (28 * CHEST_MULTIPLIER) 28 None
                         (replicate (Suc 11) (28 * CHEST_MULTIPLIER))),
         locked := True, phase := Locked, status := StLockedMsg \<rparr>"
    by (subst steady_step [OF a lm oneHip_one_hip oneHip_measures(1) [OF lm] sc, where k = 11])
      (simp_all add: s_def CHEST_MULTIPLIER_def)
  also have "28 * CHEST_MULTIPLIER = 49" by (simp add: CHEST_MULTIPLIER_def)
  finally show ?thesis
    unfolding oneHip_eleven s_def [symmetric] rec by (simp add: s_def del: replicate_Suc)
qed

lemma oneHip_locks:
  "processFrames calibrated (replicate 12 frameOneHip) =
     calibrated\<lparr> recentShoulderN := replicate 12 (5 / 16), chestBuf := replicate 12 49,
       shoulderBuf := replicate 12 28,
       meas := Some \<lparr> chestCm = 49, shoulderCm = 28, upperWaistCm = None,
                      quality = \<lparr> frames = 12, spreadCm = 0 \<rparr> \<rparr>,
       locked := True, phase := Locked, status := StLockedMsg \<rparr>"
  using processFrames_replicate_Suc [of calibrated 11 frameOneHip] oneHip_twelfth by simp


subsection \<open>Reachable states\<close>

lemma reachable_calibrated: "reachable calibrated"
  unfolding calibrated_def by (rule r_calibrate [OF r_init]) (simp add: initial_def)

lemma reachable_processFrames: "reachable s \<Longrightarrow> reachable (processFrames s fs)"
  unfolding processFrames_def by (induction fs arbitrary: s) (simp_all add: r_frame)

lemma processFrame_keeps_factor: "cmPerPx (processFrame s res) = cmPerPx s"
proof (cases "accepted s res")
  case True
  then obtain lm where "poseLandmarks res = Some lm" using accepted_landmarks by blast
  with True show ?thesis by (simp add: processFrame_accepted)
next
  case False
  then show ?thesis using processFrame_rejected [of s res] by auto
qed

lemma processFrame_phase:
  "phase (processFrame s res) = phase s
   \<or> (phase (processFrame s res) = Locked \<and> accepted s res)"
proof (cases "accepted s res")
  case True
  then obtain lm where "poseLandmarks res = Some lm" using accepted_landmarks by blast
  with True show ?thesis by (simp add: processFrame_accepted)
next
  case False
  then show ?thesis using processFrame_rejected [of s res] by auto
qed


lemma accepted_factor: "accepted s res \<Longrightarrow> cmPerPx s \<noteq> None"
  by (auto simp: accepted_def falsy_def split: option.splits)

lemma reachable_factor:
  "reachable s \<Longrightarrow> phase s \<noteq> Calibrate \<Longrightarrow> cmPerPx s \<noteq> None"
proof (induction rule: reachable.induct)
  case r_init
  then show ?case by (simp add: initial_def)
next
  case (r_slider s b)
  then show ?case by (simp add: setBarPx_def)
next
  case (r_calibrate s)
  then show ?case by (simp add: setCalibration_def split: if_splits)
next
  case (r_retake s)
  then show ?case by (simp add: retake_def)
next
  case (r_recalibrate s)
  then show ?case by (simp add: recalibrate_def)
next
  case (r_frame s res)
  then show ?case
    using processFrame_phase [of s res] accepted_factor [of s res]
    by (auto simp: processFrame_keeps_factor)
qed


section \<open>The session\<close>

text \<open>
  C1, as the code has it: in every state the page can reach, a phase of measuring
  or locked implies that the calibration factor is defined. The converse does not
  hold: \<open>recalibrate\<close> goes back to the calibrating phase and leaves the factor as
  it is.
\<close>

theorem calibration_factor_invariant:
  assumes "reachable s"
  shows "(phase s = Measure \<or> phase s = Locked \<longrightarrow> cmPerPx s \<noteq> None)
         \<and> phase (recalibrate s) = Calibrate \<and> cmPerPx (recalibrate s) = cmPerPx s"
  using reachable_factor [OF assms] by (auto simp: recalibrate_def)

theorem calibration_factor_invariant_witness:
  "reachable (processFrames calibrated (replicate 12 frameOneHip))
   \<and> phase (processFrames calibrated (replicate 12 frameOneHip)) = Locked
   \<and> cmPerPx (processFrames calibrated (replicate 12 frameOneHip)) = Some (7 / 100)
   \<and> cmPerPx (recalibrate (processFrames calibrated (replicate 12 frameOneHip))) = Some (7 / 100)"
  using calibration_factor_invariant [OF reachable_processFrames [OF reachable_calibrated],
      of "replicate 12 frameOneHip"]
    reachable_processFrames [OF reachable_calibrated, of "replicate 12 frameOneHip"]
  unfolding oneHip_locks by (simp add: calibrated_eq recalibrate_def)

text \<open>C1 as stated fails: after a lock and \<open>recalibrate\<close> the phase is calibrating
  and the factor of the previous calibration is still there.\<close>

theorem recalibrate_keeps_factor_counterexample:
  "reachable (recalibrate (processFrames calibrated (replicate 12 frameOneHip)))
   \<and> phase (recalibrate (processFrames calibrated (replicate 12 frameOneHip))) = Calibrate
   \<and> cmPerPx (recalibrate (processFrames calibrated (replicate 12 frameOneHip))) = Some (7 / 100)"
proof -
  have "reachable (processFrames calibrated (replicate 12 frameOneHip))"
    by (rule reachable_processFrames [OF reachable_calibrated])
  then have "reachable (recalibrate (processFrames calibrated (replicate 12 frameOneHip)))"
    by (rule r_recalibrate) (simp_all add: oneHip_locks)
  then show ?thesis unfolding oneHip_locks by (simp add: recalibrate_def calibrated_eq)
qed

text \<open>
  C6, as the code has it: a frame without its required joints (no landmarks, a
  shoulder absent or not above the visibility threshold, or both hips so) leaves the
  stability window and the chest, shoulder and waist windows as they are. Unless the
  session is locked, the status becomes "Detecting body" (no landmarks) or "Show
  shoulders & upper torso."; a locked session returns before the check and keeps its
  status.
\<close>

theorem frame_without_joints:
  assumes "lacksRequiredJoint res"
  shows "recentShoulderN (processFrame s res) = recentShoulderN s
         \<and> chestBuf (processFrame s res) = chestBuf s
         \<and> shoulderBuf (processFrame s res) = shoulderBuf s
         \<and> waistBuf (processFrame s res) = waistBuf s
         \<and> (if locked s then status (processFrame s res) = status s
            else status (processFrame s res)
                 = (if poseLandmarks res = None then StDetecting else StShowShoulders))"
  using assms
  by (auto simp: processFrame_def lacksRequiredJoint_def shouldersOK_def hipsOK_def
      split: option.splits)

theorem frame_without_joints_witness:
  "lacksRequiredJoint frameNoPose
   \<and> chestBuf (processFrame calibrated frameNoPose) = []
   \<and> status (processFrame calibrated frameNoPose) = StDetecting"
  using frame_without_joints [of frameNoPose calibrated]
  by (simp add: lacksRequiredJoint_def frameNoPose_def calibrated_eq)

text \<open>C6 as stated fails in a locked session: the frame is dropped and no rejection
  status is reported.\<close>

theorem locked_frame_silent_counterexample:
  "lacksRequiredJoint frameNoPose
   \<and> reachable (processFrames calibrated (replicate 12 frameOneHip))
   \<and> status (processFrame (processFrames calibrated (replicate 12 frameOneHip)) frameNoPose)
       = StLockedMsg"
  using reachable_processFrames [OF reachable_calibrated, of "replicate 12 frameOneHip"]
  unfolding oneHip_locks by (simp add: processFrame_def lacksRequiredJoint_def frameNoPose_def)

subsection \<open>The calibration example in double precision\<close>

lemma dbl_binade:
  assumes "0 < v" and "2 powr of_int e \<le> v" and "v < 2 powr (of_int e + 1)"
  shows "dbl v = of_int (roundTiesToEven (v / 2 powr (of_int e - 52))) * 2 powr (of_int e - 52)"
proof -
  have "\<lfloor>log 2 v\<rfloor> = e"
    using assms by (simp add: floor_log_eq_powr_iff)
  with assms(1) show ?thesis by (simp add: dbl_def Let_def)
qed

lemma ulp_m56: "(2::real) powr (of_int (- 4) - 52) = 1 / 2 ^ 56"
proof -
  have "(2::real) powr (of_int (- 4) - 52) = 2 powr (- 56)" by simp
  also have "\<dots> = inverse (2 powr 56)" by (rule powr_minus)
  finally show ?thesis by (simp add: inverse_eq_divide)
qed

lemma ulp_m48: "(2::real) powr (of_int 4 - 52) = 1 / 2 ^ 48"
proof -
  have "(2::real) powr (of_int 4 - 52) = 2 powr (- 48)" by simp
  also have "\<dots> = inverse (2 powr 48)" by (rule powr_minus)
  finally show ?thesis by (simp add: inverse_eq_divide)
qed

lemma dbl_seven_hundredths: "dbl (7 / 100) = 5044031582654956 / 2 ^ 56"
proof -
  have lo: "(2::real) powr of_int (- 4) \<le> 7 / 100"
    using powr_minus [of "2::real" 4] by simp
  have hi: "(7 / 100 :: real) < 2 powr (of_int (- 4) + 1)"
    using powr_minus [of "2::real" 3] by simp
  have r: "roundTiesToEven (7 / 100 / (1 / 2 ^ 56)) = 5044031582654956"
    by (simp add: roundTiesToEven_def Let_def)
  show ?thesis
    using dbl_binade [OF _ lo hi] unfolding ulp_m56 r by simp
qed

lemma dbl_product: "dbl (400 * (5044031582654956 / 2 ^ 56)) = 28 + 1 / 2 ^ 48"
proof -
  have lo: "(2::real) powr of_int 4 \<le> 400 * (5044031582654956 / 2 ^ 56)"
    by simp
  have hi: "(400 * (5044031582654956 / 2 ^ 56) :: real) < 2 powr (of_int 4 + 1)"
    by simp
  have r: "roundTiesToEven (400 * (5044031582654956 / 2 ^ 56) / (1 / 2 ^ 48)) = 7881299347898369"
    by (simp add: roundTiesToEven_def Let_def)
  show ?thesis
    using dbl_binade [OF _ lo hi] unfolding ulp_m48 r by simp
qed


lemma ulp_m54: "(2::real) powr (of_int (- 2) - 52) = 1 / 2 ^ 54"
proof -
  have "(2::real) powr (of_int (- 2) - 52) = 2 powr (- 54)" by simp
  also have "\<dots> = inverse (2 powr 54)" by (rule powr_minus)
  finally show ?thesis by (simp add: inverse_eq_divide)
qed

lemma ulp_m44: "(2::real) powr (of_int 8 - 52) = 1 / 2 ^ 44"
proof -
  have "(2::real) powr (of_int 8 - 52) = 2 powr (- 44)" by simp
  also have "\<dots> = inverse (2 powr 44)" by (rule powr_minus)
  finally show ?thesis by (simp add: inverse_eq_divide)
qed

lemma dbl_five_sixteenths: "dbl (5 / 16) = 5 / 16"
proof -
  have lo: "(2::real) powr of_int (- 2) \<le> 5 / 16"
    using powr_minus [of "2::real" 2] by simp
  have hi: "(5 / 16 :: real) < 2 powr (of_int (- 2) + 1)"
    using powr_minus [of "2::real" 1] by simp
  have r: "roundTiesToEven (5 / 16 / (1 / 2 ^ 54)) = 5629499534213120"
    by (simp add: roundTiesToEven_def Let_def)
  show ?thesis
    using dbl_binade [OF _ lo hi] unfolding ulp_m54 r by simp
qed

lemma dbl_four_hundred: "dbl 400 = 400"
proof -
  have lo: "(2::real) powr of_int 8 \<le> 400" by simp
  have hi: "(400 :: real) < 2 powr (of_int 8 + 1)" by simp
  have r: "roundTiesToEven (400 / (1 / 2 ^ 44)) = 7036874417766400"
    by (simp add: roundTiesToEven_def Let_def)
  show ?thesis
    using dbl_binade [OF _ lo hi] unfolding ulp_m44 r by simp
qed

lemma oneHip_shoulderPxD:
  "shoulderPxD 1280 (mkLandmark (21 / 32) (3 / 10) (9 / 10))
     (mkLandmark (11 / 32) (3 / 10) (9 / 10)) = 400"
  by (simp add: shoulderPxD_def mkLandmark_sel dbl_five_sixteenths dbl_four_hundred)

lemma calibrationFactorD_300: "calibrationFactorD 300 = dbl (7 / 100)"
  by (simp add: calibrationFactorD_def A4_WIDTH_CM_def)

text \<open>
  C9, as the code has it: with the reference width of 21 cm, confirming the
  calibration with a bar of 300 pixels gives the double that the literal \<open>0.07\<close>
  denotes, and a shoulder pixel distance of 400 then gives the double
  \<open>28 + 2\<^sup>-\<^sup>4\<^sup>8\<close>, printed as 28.000000000000004: one unit in the last place above
  28, and 28 once rounded to one decimal as the locked record stores it.
\<close>

theorem calibration_example_double:
  "calibrationFactorD 300 = dbl (7 / 100)
   \<and> (\<forall>W Lsh Rsh. shoulderPxD W Lsh Rsh = 400
        \<longrightarrow> shoulderCmD W Lsh Rsh (calibrationFactorD 300) = 28 + 1 / 2 ^ 48)
   \<and> toFixedNum 1 (28 + 1 / 2 ^ 48) = 28"
proof -
  have "shoulderCmD W Lsh Rsh (calibrationFactorD 300) = 28 + 1 / 2 ^ 48"
    if "shoulderPxD W Lsh Rsh = 400" for W Lsh Rsh
    unfolding shoulderCmD_def that calibrationFactorD_300 dbl_seven_hundredths
    by (rule dbl_product)
  moreover have "toFixedNum 1 (28 + 1 / 2 ^ 48) = 28"
    by (simp add: toFixedNum_def)
  ultimately show ?thesis using calibrationFactorD_300 by blast
qed

theorem calibration_example_double_witness:
  "shoulderPxD 1280 (mkLandmark (21 / 32) (3 / 10) (9 / 10))
     (mkLandmark (11 / 32) (3 / 10) (9 / 10)) = 400
   \<and> shoulderCmD 1280 (mkLandmark (21 / 32) (3 / 10) (9 / 10))
     (mkLandmark (11 / 32) (3 / 10) (9 / 10)) (calibrationFactorD 300) = 28 + 1 / 2 ^ 48"
  using calibration_example_double oneHip_shoulderPxD by blast

text \<open>C9 as stated fails: for shoulders 400 pixels apart the width in cm is not
  exactly 28.\<close>

theorem shoulder_not_exactly_28_counterexample:
  "shoulderPxD 1280 (mkLandmark (21 / 32) (3 / 10) (9 / 10))
     (mkLandmark (11 / 32) (3 / 10) (9 / 10)) = 400
   \<and> shoulderCmD 1280 (mkLandmark (21 / 32) (3 / 10) (9 / 10))
     (mkLandmark (11 / 32) (3 / 10) (9 / 10)) (calibrationFactorD 300) \<noteq> 28"
proof -
  have "shoulderCmD 1280 (mkLandmark (21 / 32) (3 / 10) (9 / 10))
     (mkLandmark (11 / 32) (3 / 10) (9 / 10)) (calibrationFactorD 300) = 28 + 1 / 2 ^ 48"
    unfolding shoulderCmD_def oneHip_shoulderPxD calibrationFactorD_300 dbl_seven_hundredths
    by (rule dbl_product)
  then show ?thesis using oneHip_shoulderPxD by simp
qed











subsection \<open>Sessions without a waist sample\<close>

lemma processFrames_Cons: "processFrames s (res # fs) = processFrames (processFrame s res) fs"
  by (simp add: processFrames_def)

lemma noWaist_step:
  assumes "if locked s then \<exists>m. meas s = Some m \<and> upperWaistCm m = None else waistBuf s = []"
    and "accepted s res \<longrightarrow> \<not> bothHipsVisible res"
  shows "if locked (processFrame s res)
         then \<exists>m. meas (processFrame s res) = Some m \<and> upperWaistCm m = None
         else waistBuf (processFrame s res) = []"
proof (cases "accepted s res")
  case True
  then obtain lm where lm: "poseLandmarks res = Some lm"
    using accepted_landmarks by blast
  have nohips: "upperWaistCmInstantOf (imageWidth res) lm (the (cmPerPx s)) = None"
    using assms(2) True lm by (simp add: upperWaistCmInstantOf_def bothHipsVisible_def)
  from True have "\<not> locked s" by (simp add: accepted_def)
  with assms(1) show ?thesis
    unfolding processFrame_accepted [OF True lm] nohips pushMed_absent
    by (simp add: lockedRecord_def falsy_def)
next
  case False
  then show ?thesis using processFrame_rejected [of s res] assms(1) by auto
qed

lemma noWaist_run:
  assumes "if locked s then \<exists>m. meas s = Some m \<and> upperWaistCm m = None else waistBuf s = []"
    and "noWaistRun s fs"
  shows "if locked (processFrames s fs)
         then \<exists>m. meas (processFrames s fs) = Some m \<and> upperWaistCm m = None
         else waistBuf (processFrames s fs) = []"
  using assms
proof (induction fs arbitrary: s)
  case Nil
  then show ?case by (simp add: processFrames_def)
next
  case (Cons res fs)
  from Cons.prems have "noWaistRun (processFrame s res) fs"
    and "accepted s res \<longrightarrow> \<not> bothHipsVisible res"
    by simp_all
  with Cons.prems(1) show ?case
    unfolding processFrames_Cons
    by (intro Cons.IH noWaist_step) 
qed

lemma noWaistRun_hidden_hips: "\<forall>res \<in> set fs. \<not> bothHipsVisible res \<Longrightarrow> noWaistRun s fs"
  by (induction fs arbitrary: s) simp_all

text \<open>
  C10: a lock does not need a waist median. In a run of frames that starts unlocked
  with an empty waist window and in which no accepted frame shows both hips, a lock
  leaves a record whose \<open>upperWaistCm\<close> is absent, and the two-size classifier gives
  no label for it; and such a run can lock: 12 frames with one hip in view do.
\<close>

theorem lock_without_waist:
  "(\<not> locked s \<and> waistBuf s = [] \<and> noWaistRun s fs \<and> locked (processFrames s fs)
      \<longrightarrow> (\<exists>m. meas (processFrames s fs) = Some m \<and> upperWaistCm m = None
             \<and> recommendTopSize (Some (chestCm m)) (upperWaistCm m) (Some (shoulderCm m)) = None))
   \<and> noWaistRun calibrated (replicate 12 frameOneHip)
   \<and> locked (processFrames calibrated (replicate 12 frameOneHip))"
proof -
  have "\<exists>m. meas (processFrames s fs) = Some m \<and> upperWaistCm m = None
             \<and> recommendTopSize (Some (chestCm m)) (upperWaistCm m) (Some (shoulderCm m)) = None"
    if "\<not> locked s" "waistBuf s = []" "noWaistRun s fs" "locked (processFrames s fs)"
  proof -
    have "if locked (processFrames s fs)
         then \<exists>m. meas (processFrames s fs) = Some m \<and> upperWaistCm m = None
         else waistBuf (processFrames s fs) = []"
      using that(1,2) by (intro noWaist_run that(3)) simp
    with that(4) obtain m where "meas (processFrames s fs) = Some m" "upperWaistCm m = None"
      by auto
    then show ?thesis by (simp add: recommendTopSize_def)
  qed
  moreover have "noWaistRun calibrated (replicate 12 frameOneHip)"
    by (rule noWaistRun_hidden_hips) (simp add: oneHip_one_hip)
  moreover have "locked (processFrames calibrated (replicate 12 frameOneHip))"
    unfolding oneHip_locks by simp
  ultimately show ?thesis by blast
qed

theorem lock_without_waist_witness:
  "\<not> locked calibrated \<and> waistBuf calibrated = []
   \<and> noWaistRun calibrated (replicate 12 frameOneHip)
   \<and> locked (processFrames calibrated (replicate 12 frameOneHip))
   \<and> meas (processFrames calibrated (replicate 12 frameOneHip))
      = Some \<lparr> chestCm = 49, shoulderCm = 28, upperWaistCm = None,
               quality = \<lparr> frames = 12, spreadCm = 0 \<rparr> \<rparr>
   \<and> recommendTopSize (Some 49) None (Some 28) = None"
proof -
  have "\<not> locked calibrated \<and> waistBuf calibrated = []"
    by (simp add: calibrated_eq)
  moreover have "meas (processFrames calibrated (replicate 12 frameOneHip))
      = Some \<lparr> chestCm = 49, shoulderCm = 28, upperWaistCm = None,
               quality = \<lparr> frames = 12, spreadCm = 0 \<rparr> \<rparr>"
    unfolding oneHip_locks by simp
  ultimately show ?thesis
    using lock_without_waist [of calibrated "replicate 12 frameOneHip"] by auto
qed

end
